theory Spec2Isabelle
  imports Main
begin

section \<open>The opcode table\<close>

text \<open>
  The object \<^verbatim>\<open>OPCODES\<close> of \<^verbatim>\<open>awa5.js\<close>: the numeric codes, \<^verbatim>\<open>get\<close> and
  \<^verbatim>\<open>parameterized\<close>. A token is a JavaScript number holding an integer; it is an
  \<^typ>\<open>int\<close> here.
\<close>

definition NOP :: nat where "NOP = 0"
definition PRN :: nat where "PRN = 1"
definition PR1 :: nat where "PR1 = 2"
definition RED :: nat where "RED = 3"
definition R3D :: nat where "R3D = 4"
definition BLO :: nat where "BLO = 5"
definition SBM :: nat where "SBM = 6"
definition POP :: nat where "POP = 7"
definition DPL :: nat where "DPL = 8"
definition SRN :: nat where "SRN = 9"
definition MRG :: nat where "MRG = 10"
definition DD4 :: nat where "DD4 = 11"
definition SUB :: nat where "SUB = 12"
definition MUL :: nat where "MUL = 13"
definition DIV :: nat where "DIV = 14"
definition CNT :: nat where "CNT = 15"
definition LBL :: nat where "LBL = 16"
definition JMP :: nat where "JMP = 17"
definition EQL :: nat where "EQL = 18"
definition LSS :: nat where "LSS = 19"
definition GR8 :: nat where "GR8 = 20"
definition EQZ :: nat where "EQZ = 21"
definition TRM :: nat where "TRM = 31"

lemmas opcodes =
  NOP_def PRN_def PR1_def RED_def R3D_def BLO_def SBM_def POP_def DPL_def SRN_def
  MRG_def DD4_def SUB_def MUL_def DIV_def CNT_def LBL_def JMP_def EQL_def LSS_def
  GR8_def EQZ_def TRM_def

text \<open>
  \<^verbatim>\<open>get: (token >>> 0) % 32\<close>. The unsigned shift reads the token modulo \<open>2^32\<close>.
\<close>

definition OPCODES_get :: "int \<Rightarrow> nat" where
  "OPCODES_get token = nat ((token mod 2 ^ 32) mod 32)"

text \<open>
  \<^verbatim>\<open>parameterized\<close> is a \<^verbatim>\<open>switch\<close> with strict comparison against the nine codes
  BLO, SBM, SRN, LBL, JMP, EQL, LSS, GR8 and EQZ. It answers for the value it is given:
  the label scan of the interpreter hands it the raw token, not the token's code.
\<close>

definition OPCODES_parameterized :: "int \<Rightarrow> bool" where
  "OPCODES_parameterized opcode =
     (opcode = int BLO \<or> opcode = int SBM \<or> opcode = int SRN \<or> opcode = int LBL \<or>
      opcode = int JMP \<or> opcode = int EQL \<or> opcode = int LSS \<or> opcode = int GR8 \<or>
      opcode = int EQZ)"

section \<open>Errors\<close>

text \<open>
  Every \<^verbatim>\<open>throw\<close> of the source, and every exception the language raises in it, is
  a value. An \<open>OpcodeError\<close> keeps the offending token and which of the three messages
  it carries.
\<close>

datatype opcode_message = NotEnoughBubbles | NotEnoughArguments | InvalidOpcode

datatype type_error = UndefinedOperand | AssignmentToConstant | NotAFunction

datatype error =
    MissingStartOfBlock
  | MalformedInput nat
  | OpcodeError int opcode_message
  | LimitError
  | TypeError type_error
  | ReferenceError string
  | RangeError

section \<open>The tokenizer\<close>

text \<open>
  The source text is a list of 8-bit characters. \<^verbatim>\<open>\s\<close> matches tab, line feed,
  vertical tab, form feed, carriage return, space and the no-break space among them.
\<close>

definition is_space :: "char \<Rightarrow> bool" where
  "is_space c = (c \<in> set [CHR 0x09, CHR 0x0A, CHR 0x0B, CHR 0x0C, CHR 0x0D, CHR 0x20, CHR 0xA0])"

text \<open>\<^verbatim>\<open>.replace(/[^aw~\s]+/gi, '')\<close>: only a, w (either case), the tilde and
  white space survive.\<close>

definition kept :: "char \<Rightarrow> bool" where
  "kept c = (c = CHR ''a'' \<or> c = CHR ''A'' \<or> c = CHR ''w'' \<or> c = CHR ''W'' \<or> c = CHR ''~'' \<or> is_space c)"

text \<open>\<^verbatim>\<open>.replace(/[\n\s]+/g, ' ')\<close>: every maximal run of white space becomes one space.\<close>

function collapse :: "string \<Rightarrow> string" where
  "collapse [] = []"
| "collapse (c # cs) =
     (if is_space c then CHR '' '' # collapse (dropWhile is_space cs) else c # collapse cs)"
  by pat_completeness auto
termination
  by (relation "measure length") (auto simp: length_dropWhile_le less_Suc_eq_le)

text \<open>\<^verbatim>\<open>.toLocaleLowerCase()\<close> on what is left: only A and W have a lower case.\<close>

definition lower :: "char \<Rightarrow> char" where
  "lower c = (if c = CHR ''A'' then CHR ''a'' else if c = CHR ''W'' then CHR ''w'' else c)"

definition sanitize :: "string \<Rightarrow> string" where
  "sanitize input = map lower (collapse (filter kept input))"

text \<open>\<^verbatim>\<open>cleaned.search(/awa\s*/)\<close>: the index of the first \<^verbatim>\<open>awa\<close>, if any.\<close>

fun search_awa :: "string \<Rightarrow> nat \<Rightarrow> nat option" where
  "search_awa [] i = None"
| "search_awa (c # cs) i =
     (if take 3 (c # cs) = ''awa'' then Some i else search_awa cs (Suc i))"

text \<open>
  The loop of \<^verbatim>\<open>parser\<close> runs while \<^verbatim>\<open>cursor < cleaned.length - 1\<close>; the right-hand
  side is \<open>-1\<close> on the empty text, so the comparison is one of integers.
\<close>

definition parser_continues :: "string \<Rightarrow> nat \<Rightarrow> bool" where
  "parser_continues cleaned cursor = (int cursor < int (length cleaned) - 1)"

text \<open>
  The \<^verbatim>\<open>if\<close> chain at the head of the loop body reads one bit unit at the cursor:
  \<^verbatim>\<open>wa\<close> shifts a one in, \<^verbatim>\<open> awa\<close> a zero, \<^verbatim>\<open> ~wa\<close> (first bit only) sets the value to
  \<open>-1\<close>; anything else is a syntax error. \<^verbatim>\<open>substring\<close> returns what is left of the
  text when it is shorter than asked for. It returns the new value and cursor. The value
  holds at most eight bits before it is reset, so \<^verbatim>\<open>value << 1\<close> never leaves the
  32-bit range and is a doubling.
\<close>

definition decode_unit :: "string \<Rightarrow> nat \<Rightarrow> nat \<Rightarrow> int \<Rightarrow> error + (int \<times> nat)" where
  "decode_unit cleaned cursor bits v =
     (if take 2 (drop cursor cleaned) = ''wa'' then Inr (2 * v + 1, cursor + 2)
      else if take 4 (drop cursor cleaned) = '' awa'' then Inr (2 * v, cursor + 4)
      else if take 4 (drop cursor cleaned) = '' ~wa'' \<and> bits = 0 then Inr (- 1, cursor + 4)
      else Inl (MalformedInput cursor))"

text \<open>
  The state of the machine is \<^verbatim>\<open>bits\<close>, \<^verbatim>\<open>target\<close>, \<^verbatim>\<open>value\<close>, \<^verbatim>\<open>parameter\<close> and the
  tokens pushed so far. A completed token is pushed; after a parameter the machine goes
  back to five bits, after an opcode whose code (\<^verbatim>\<open>OPCODES.get\<close>) is one of the nine
  parameterized ones it reads eight bits next.
\<close>

function parser_loop ::
  "string \<Rightarrow> nat \<Rightarrow> nat \<Rightarrow> nat \<Rightarrow> int \<Rightarrow> bool \<Rightarrow> int list \<Rightarrow> error + int list" where
  "parser_loop cleaned cursor bits target v parameter tokens =
     (if parser_continues cleaned cursor then
        (case decode_unit cleaned cursor bits v of
           Inl e \<Rightarrow> Inl e
         | Inr (v', cursor') \<Rightarrow>
             if bits + 1 \<ge> target then
               (if parameter then parser_loop cleaned cursor' 0 5 0 False (tokens @ [v'])
                else if OPCODES_parameterized (int (OPCODES_get v'))
                  then parser_loop cleaned cursor' 0 8 0 True (tokens @ [v'])
                else parser_loop cleaned cursor' 0 target 0 parameter (tokens @ [v']))
             else parser_loop cleaned cursor' (bits + 1) target v' parameter tokens)
      else Inr tokens)"
  by pat_completeness auto
termination
  by (relation "measure (\<lambda>(cleaned, cursor, _). length cleaned - cursor)")
     (auto simp: parser_continues_def decode_unit_def split: if_splits)

declare parser_loop.simps [simp del]

definition parser :: "string \<Rightarrow> error + int list" where
  "parser input =
     (let cleaned = sanitize input in
      case search_awa cleaned 0 of
        None \<Rightarrow> Inl MissingStartOfBlock
      | Some start \<Rightarrow> parser_loop cleaned (start + 3) 0 5 0 False [])"

section \<open>Values and bubbles\<close>

text \<open>
  What a bubble holds. Tokens, sizes and parsed input are integers (\<open>Num\<close>). Letters read
  from the input are one-character strings (\<open>Str\<close>), and the operators of the language,
  applied to strings, give strings, \<open>NaN\<close> or numbers with a fraction or without bound
  (\<open>Dbl\<close>, by the bits of the double: distinct bits are distinct numbers there).

  The backing array of a bubble holds such primitive values, with one exception: the
  broadcasting branches of \<^verbatim>\<open>Arith.add\<close>, \<^verbatim>\<open>sub\<close> and \<^verbatim>\<open>mul\<close> hand the mapped
  array itself to the constructor (\<^verbatim>\<open>new Bubble(b1v.map(...))\<close>, no spread), which
  makes a bubble whose backing is a single element, that array. \<open>Boxed r xs\<close> is this
  bubble; \<open>r\<close> is the identity of the array (\<^verbatim>\<open>clone\<close> copies the reference, and
  \<^verbatim>\<open>===\<close> on arrays compares references). No other bubble that reaches the abyss is
  built from an array or a bubble as an element: the constructor calls of \<^verbatim>\<open>Arith.div\<close>
  and \<^verbatim>\<open>Abysser.merge\<close> that would build one come after, or just before, a throw.
\<close>

datatype prim = Num int | NaN | Dbl nat | Str string

datatype aref = Ref nat | Temp

datatype jsval = Prim prim | Arr aref "prim list"

datatype bubble = Bubble "prim list" | Boxed nat "prim list"

text \<open>\<^verbatim>\<open>this.backing.length\<close>.\<close>

fun backing_length :: "bubble \<Rightarrow> nat" where
  "backing_length (Bubble xs) = length xs"
| "backing_length (Boxed r xs) = 1"

text \<open>
  \<^verbatim>\<open>value()\<close>: a fresh copy of the backing when it is longer than one (\<open>Temp\<close>: an array
  no other value refers to), 0 when it is empty, its only element otherwise.
\<close>

fun Bubble_value :: "bubble \<Rightarrow> jsval" where
  "Bubble_value (Bubble xs) =
     (if length xs > 1 then Arr Temp xs
      else if 0 = length xs then Prim (Num 0)
      else Prim (xs ! 0))"
| "Bubble_value (Boxed r xs) = Arr (Ref r) xs"

definition Bubble_isDouble :: "bubble \<Rightarrow> bool" where
  "Bubble_isDouble b = (backing_length b > 1)"

definition Bubble_size :: "bubble \<Rightarrow> nat" where
  "Bubble_size b = (if 1 = backing_length b then 0 else backing_length b)"

text \<open>\<^verbatim>\<open>clone()\<close>: a new bubble over the same elements (an array element by reference).\<close>

definition Bubble_clone :: "bubble \<Rightarrow> bubble" where
  "Bubble_clone b = b"

text \<open>The elements of an array value, as \<^verbatim>\<open>map\<close>, indexing and \<^verbatim>\<open>for ... of\<close> read them;
  the source reads them only from the value of a double bubble.\<close>

fun items :: "jsval \<Rightarrow> prim list" where
  "items (Arr r xs) = xs"
| "items (Prim p) = []"

text \<open>
  \<^verbatim>\<open>merge(bubble)\<close>: \<^verbatim>\<open>this.backing.unshift(...v)\<close>, and \<^verbatim>\<open>unshift(v)\<close> when the
  spread throws. An array spreads into its elements, a string into its characters, a
  number is not iterable. The only receiver of the call that runs is the bubble
  \<^verbatim>\<open>surround\<close> builds from \<^verbatim>\<open>new Bubble()\<close>, so the receiver's backing is a list of
  primitives; the function returns the receiver's new backing.
\<close>

fun Bubble_merge :: "prim list \<Rightarrow> bubble \<Rightarrow> prim list" where
  "Bubble_merge this b =
     (case Bubble_value b of
        Arr r xs \<Rightarrow> xs @ this
      | Prim (Str s) \<Rightarrow> map (\<lambda>c. Str [c]) s @ this
      | Prim p \<Rightarrow> p # this)"

section \<open>The operators of the language\<close>

text \<open>
  On two integers whose result is an integer a double holds exactly, \<^verbatim>\<open>+\<close>, \<^verbatim>\<open>-\<close> and
  \<^verbatim>\<open>*\<close> are the integer operations, and \<^verbatim>\<open><\<close> on two integers is the order of the
  integers. What they do on any other operands (rounding, concatenation, conversion of
  strings and arrays) is a parameter of the model: the theorems below hold whatever it is.
\<close>

record js_ops =
  op_plus :: "jsval \<Rightarrow> jsval \<Rightarrow> prim"
  op_minus :: "jsval \<Rightarrow> jsval \<Rightarrow> prim"
  op_times :: "jsval \<Rightarrow> jsval \<Rightarrow> prim"
  op_less :: "jsval \<Rightarrow> jsval \<Rightarrow> bool"

definition exact :: "int \<Rightarrow> bool" where
  "exact n = (\<bar>n\<bar> \<le> 2 ^ 53)"

fun js_plus :: "js_ops \<Rightarrow> jsval \<Rightarrow> jsval \<Rightarrow> prim" where
  "js_plus J (Prim (Num a)) (Prim (Num b)) =
     (if exact (a + b) then Num (a + b) else op_plus J (Prim (Num a)) (Prim (Num b)))"
| "js_plus J x y = op_plus J x y"

fun js_minus :: "js_ops \<Rightarrow> jsval \<Rightarrow> jsval \<Rightarrow> prim" where
  "js_minus J (Prim (Num a)) (Prim (Num b)) =
     (if exact (a - b) then Num (a - b) else op_minus J (Prim (Num a)) (Prim (Num b)))"
| "js_minus J x y = op_minus J x y"

fun js_times :: "js_ops \<Rightarrow> jsval \<Rightarrow> jsval \<Rightarrow> prim" where
  "js_times J (Prim (Num a)) (Prim (Num b)) =
     (if exact (a * b) then Num (a * b) else op_times J (Prim (Num a)) (Prim (Num b)))"
| "js_times J x y = op_times J x y"

fun js_less :: "js_ops \<Rightarrow> jsval \<Rightarrow> jsval \<Rightarrow> bool" where
  "js_less J (Prim (Num a)) (Prim (Num b)) = (a < b)"
| "js_less J x y = op_less J x y"

text \<open>\<^verbatim>\<open>===\<close>: equal numbers, equal strings, the same array; \<open>NaN\<close> equals nothing.\<close>

fun strict_equal :: "jsval \<Rightarrow> jsval \<Rightarrow> bool" where
  "strict_equal (Prim (Num a)) (Prim (Num b)) = (a = b)"
| "strict_equal (Prim (Dbl a)) (Prim (Dbl b)) = (a = b)"
| "strict_equal (Prim (Str s)) (Prim (Str t)) = (s = t)"
| "strict_equal (Arr (Ref r) xs) (Arr (Ref q) ys) = (r = q)"
| "strict_equal x y = False"

section \<open>Arith\<close>

text \<open>
  \<^verbatim>\<open>Arith.add\<close>, \<^verbatim>\<open>sub\<close> and \<^verbatim>\<open>mul\<close> are the same function up to the operator; \<open>r\<close>
  is the identity the array of a broadcasting branch gets. In the third branch the
  operator is applied to the element and then the scalar (\<^verbatim>\<open>e - b1v\<close>), as in the second.
  The last branch spreads its array: \<^verbatim>\<open>new Bubble(...values)\<close>.
\<close>

definition Arith_apply :: "(jsval \<Rightarrow> jsval \<Rightarrow> prim) \<Rightarrow> nat \<Rightarrow> bubble \<Rightarrow> bubble \<Rightarrow> bubble" where
  "Arith_apply f r b1 b2 =
     (let b1double = Bubble_isDouble b1; b2double = Bubble_isDouble b2;
          b1v = Bubble_value b1; b2v = Bubble_value b2
      in if \<not> b1double \<and> \<not> b2double then Bubble [f b1v b2v]
         else if b1double \<and> \<not> b2double then Boxed r (map (\<lambda>e. f (Prim e) b2v) (items b1v))
         else if \<not> b1double \<and> b2double then Boxed r (map (\<lambda>e. f (Prim e) b1v) (items b2v))
         else Bubble (map (\<lambda>i. f (Prim (items b1v ! i)) (Prim (items b2v ! i)))
                 [0 ..< min (Bubble_size b1) (Bubble_size b2)]))"

definition Arith_add :: "js_ops \<Rightarrow> nat \<Rightarrow> bubble \<Rightarrow> bubble \<Rightarrow> bubble" where
  "Arith_add J = Arith_apply (js_plus J)"

definition Arith_sub :: "js_ops \<Rightarrow> nat \<Rightarrow> bubble \<Rightarrow> bubble \<Rightarrow> bubble" where
  "Arith_sub J = Arith_apply (js_minus J)"

definition Arith_mul :: "js_ops \<Rightarrow> nat \<Rightarrow> bubble \<Rightarrow> bubble \<Rightarrow> bubble" where
  "Arith_mul J = Arith_apply (js_times J)"

text \<open>
  \<^verbatim>\<open>Arith.div\<close> never returns. With two single bubbles it evaluates
  \<^verbatim>\<open>Arith.bubblediv(bv1, bv2)\<close>, and \<^verbatim>\<open>bv1\<close> is declared nowhere (the constants are
  \<^verbatim>\<open>b1v\<close> and \<^verbatim>\<open>b2v\<close>): a \<^verbatim>\<open>ReferenceError\<close>. In the other three branches it calls
  \<^verbatim>\<open>Arith.bubblediv(e, b2v)\<close> on an element of a double bubble, without the trace that
  \<^verbatim>\<open>bubblediv(trace, v1, v2)\<close> takes first; the element is a number or a string,
  and \<^verbatim>\<open>trace.push\<close> on it is not a function: a \<^verbatim>\<open>TypeError\<close>. A double bubble has
  at least two elements, so the call is always reached.
\<close>

definition Arith_div :: "bubble \<Rightarrow> bubble \<Rightarrow> error + bubble" where
  "Arith_div b1 b2 =
     (if \<not> Bubble_isDouble b1 \<and> \<not> Bubble_isDouble b2 then Inl (ReferenceError ''bv1'')
      else Inl (TypeError NotAFunction))"

section \<open>Comparator\<close>

definition Comparator_equal :: "bubble \<Rightarrow> bubble \<Rightarrow> bool" where
  "Comparator_equal b1 b2 =
     (let b1double = Bubble_isDouble b1; b2double = Bubble_isDouble b2;
          b1v = Bubble_value b1; b2v = Bubble_value b2
      in if (b1double \<and> \<not> b2double) \<or> (\<not> b1double \<and> b2double) then False
         else if b1double \<and> b2double then
           (if Bubble_size b1 \<noteq> Bubble_size b2 then False
            else list_all (\<lambda>i. strict_equal (Prim (items b1v ! i)) (Prim (items b2v ! i)))
                   [0 ..< Bubble_size b1])
         else strict_equal b1v b2v)"

definition Comparator_less :: "js_ops \<Rightarrow> bubble \<Rightarrow> bubble \<Rightarrow> bool" where
  "Comparator_less J b1 b2 =
     (if \<not> Bubble_isDouble b1 \<and> \<not> Bubble_isDouble b2
      then js_less J (Bubble_value b1) (Bubble_value b2) else False)"

text \<open>The body of \<^verbatim>\<open>greater\<close> is that of \<^verbatim>\<open>less\<close>, \<^verbatim>\<open><\<close> included.\<close>

definition Comparator_greater :: "js_ops \<Rightarrow> bubble \<Rightarrow> bubble \<Rightarrow> bool" where
  "Comparator_greater J b1 b2 =
     (if \<not> Bubble_isDouble b1 \<and> \<not> Bubble_isDouble b2
      then js_less J (Bubble_value b1) (Bubble_value b2) else False)"

definition Comparator_zero :: "bubble \<Rightarrow> bool" where
  "Comparator_zero b1 =
     (if \<not> Bubble_isDouble b1 then strict_equal (Prim (Num 0)) (Bubble_value b1) else False)"

section \<open>The abyss and Abysser\<close>

text \<open>
  The abyss is a JavaScript array, its top at the end. \<^verbatim>\<open>Abysser.submerge\<close> pops
  without looking at the length, and \<^verbatim>\<open>pop()\<close> of an empty array is \<^verbatim>\<open>undefined\<close>,
  which the function then stores: an entry of the abyss is a bubble or \<^verbatim>\<open>undefined\<close>
  (\<open>None\<close>).
\<close>

type_synonym slot = "bubble option"

definition array_pop :: "slot list \<Rightarrow> slot \<times> slot list" where
  "array_pop a = (if a = [] then (None, []) else (last a, butlast a))"

text \<open>
  \<^verbatim>\<open>splice(start, 0, value)\<close>: a negative start counts from the end and stops at 0, a
  start past the end is the end.
\<close>

definition array_splice_insert :: "slot list \<Rightarrow> int \<Rightarrow> slot \<Rightarrow> slot list" where
  "array_splice_insert a start v =
     (let len = int (length a);
          k = (if start < 0 then max (len + start) 0 else min start len)
      in take (nat k) a @ [v] @ drop (nat k) a)"

definition Abysser_submerge :: "slot list \<Rightarrow> int \<Rightarrow> slot list" where
  "Abysser_submerge abyss input =
     (let (v, a) = array_pop abyss
      in if 0 = input then v # a
         else array_splice_insert a (int (length a) - input) v)"

text \<open>What an opcode leaves in \<^verbatim>\<open>result\<close>: \<^verbatim>\<open>null\<close>, a bubble, or an array of bubbles.\<close>

datatype result = Null | One bubble | Many "bubble list"

definition Abysser_pop :: "bubble \<Rightarrow> result" where
  "Abysser_pop input =
     (if \<not> Bubble_isDouble input then Null
      else Many (map (\<lambda>v. Bubble [v]) (items (Bubble_value input))))"

definition Abysser_duplicate :: "bubble \<Rightarrow> result" where
  "Abysser_duplicate input = Many [input, Bubble_clone input]"

text \<open>
  \<^verbatim>\<open>Abysser.surround\<close>: \<open>input\<close> times \<^verbatim>\<open>bubble.merge(this.abyss.pop())\<close>, from an empty
  bubble. Merging \<^verbatim>\<open>undefined\<close> throws (\<^verbatim>\<open>bubble.value()\<close>), after the pop.
\<close>

fun surround_loop :: "nat \<Rightarrow> slot list \<Rightarrow> prim list \<Rightarrow> (error \<times> slot list) + (bubble \<times> slot list)" where
  "surround_loop 0 abyss this = Inr (Bubble this, abyss)"
| "surround_loop (Suc n) abyss this =
     (case array_pop abyss of
        (None, a) \<Rightarrow> Inl (TypeError UndefinedOperand, a)
      | (Some b, a) \<Rightarrow> surround_loop n a (Bubble_merge this b))"

definition Abysser_surround :: "slot list \<Rightarrow> int \<Rightarrow> (error \<times> slot list) + (bubble \<times> slot list)" where
  "Abysser_surround abyss input = surround_loop (nat input) abyss []"

text \<open>
  \<^verbatim>\<open>Abysser.merge\<close> never returns. It declares \<^verbatim>\<open>const bubble = b1\<close>; with two single
  bubbles it then assigns \<^verbatim>\<open>bubble = new Bubble([v2, v1])\<close>, an assignment to a constant
  (\<^verbatim>\<open>TypeError\<close>); otherwise it evaluates \<^verbatim>\<open>bubble.merge(input[1])\<close>, and \<^verbatim>\<open>input\<close> is
  declared nowhere (\<^verbatim>\<open>ReferenceError\<close>). The test is
  \<^verbatim>\<open>false === b1.isDouble() && false === b2.isDouble()\<close>, so \<^verbatim>\<open>b2\<close> is looked at only
  when \<^verbatim>\<open>b1\<close> is single.
\<close>

definition Abysser_merge :: "slot \<Rightarrow> slot \<Rightarrow> error + bubble" where
  "Abysser_merge s1 s2 =
     (case s1 of
        None \<Rightarrow> Inl (TypeError UndefinedOperand)
      | Some b1 \<Rightarrow>
          if Bubble_isDouble b1 then Inl (ReferenceError ''input'')
          else (case s2 of
                  None \<Rightarrow> Inl (TypeError UndefinedOperand)
                | Some b2 \<Rightarrow>
                    if Bubble_isDouble b2 then Inl (ReferenceError ''input'')
                    else Inl (TypeError AssignmentToConstant)))"

section \<open>The interpreter\<close>

text \<open>
  The input reader, the output writer and the class \<^verbatim>\<open>InOut\<close> between them and the
  interpreter are parameters: \<open>'io\<close> is the state of the two transports, and each
  operation returns the new state with a bubble, nothing or an error. \<open>io_report\<close> is
  what the \<^verbatim>\<open>catch\<close> of \<^verbatim>\<open>AWA5.run\<close> writes, \<open>io_reset\<close> is \<^verbatim>\<open>this.intake.reset()\<close>.
  The trace is pushed and popped for diagnostics only and is left out.
\<close>

record 'io inout =
  io_write :: "'io \<Rightarrow> bubble \<Rightarrow> (error \<times> 'io) + 'io"
  io_writeRaw :: "'io \<Rightarrow> bubble \<Rightarrow> (error \<times> 'io) + 'io"
  io_read :: "'io \<Rightarrow> (error \<times> 'io) + (bubble \<times> 'io)"
  io_readRaw :: "'io \<Rightarrow> (error \<times> 'io) + (bubble \<times> 'io)"
  io_report :: "'io \<Rightarrow> error \<Rightarrow> 'io"
  io_reset :: "'io \<Rightarrow> 'io"

text \<open>
  The state a run works on: the cursor, the abyss, the transports and the next array
  identity.
\<close>

record 'io state =
  cursor :: nat
  abyss :: "slot list"
  io :: 'io
  fresh :: nat

type_synonym labels = "int \<Rightarrow> nat option"

text \<open>\<^verbatim>\<open>tokens[i]\<close>: \<^verbatim>\<open>undefined\<close> (\<open>None\<close>) exactly past the end.\<close>

definition token_at :: "int list \<Rightarrow> nat \<Rightarrow> int option" where
  "token_at tokens i = (if i < length tokens then Some (tokens ! i) else None)"

text \<open>
  The label scan. \<^verbatim>\<open>labels\<close> is an array used as a table from parameter values to
  indices. The index moves on by two after a token \<^verbatim>\<open>OPCODES.parameterized\<close> accepts,
  by one otherwise.
\<close>

definition scan_next :: "int list \<Rightarrow> nat \<Rightarrow> nat" where
  "scan_next tokens i = (if OPCODES_parameterized (tokens ! i) then i + 2 else i + 1)"

function register_labels :: "int list \<Rightarrow> nat \<Rightarrow> labels \<Rightarrow> error + labels" where
  "register_labels tokens i labels =
     (if i < length tokens then
        (if OPCODES_get (tokens ! i) = LBL then
           (case token_at tokens (i + 1) of
              None \<Rightarrow> Inl (OpcodeError (tokens ! i) NotEnoughArguments)
            | Some l \<Rightarrow> register_labels tokens (scan_next tokens i) (labels(l \<mapsto> i + 1)))
         else register_labels tokens (scan_next tokens i) labels)
      else Inr labels)"
  by pat_completeness auto
termination
  by (relation "measure (\<lambda>(tokens, i, _). length tokens - i)") (auto simp: scan_next_def)

declare register_labels.simps [simp del]

text \<open>\<^verbatim>\<open>abyss.push(...result)\<close>, and \<^verbatim>\<open>abyss.push(result)\<close> for a bubble, which does not spread.\<close>

fun push_result :: "result \<Rightarrow> slot list \<Rightarrow> slot list" where
  "push_result Null a = a"
| "push_result (One b) a = a @ [Some b]"
| "push_result (Many bs) a = a @ map Some bs"

text \<open>The opcodes that pop one bubble and hand it on; a method call on \<^verbatim>\<open>undefined\<close> throws.\<close>

definition pop_one ::
  "int \<Rightarrow> 'io state \<Rightarrow> (bubble \<Rightarrow> 'io state \<Rightarrow> (error \<times> 'io state) + (result \<times> 'io state))
     \<Rightarrow> (error \<times> 'io state) + (result \<times> 'io state)" where
  "pop_one token m k =
     (if 0 = length (abyss m) then Inl (OpcodeError token NotEnoughBubbles, m)
      else (case array_pop (abyss m) of
              (None, a) \<Rightarrow> Inl (TypeError UndefinedOperand, m\<lparr>abyss := a\<rparr>)
            | (Some b, a) \<Rightarrow> k b (m\<lparr>abyss := a\<rparr>)))"

text \<open>The opcodes that pop two bubbles, the top first, for \<^verbatim>\<open>Arith\<close>.\<close>

definition pop_two ::
  "int \<Rightarrow> 'io state \<Rightarrow> (bubble \<Rightarrow> bubble \<Rightarrow> 'io state \<Rightarrow> (error \<times> 'io state) + (result \<times> 'io state))
     \<Rightarrow> (error \<times> 'io state) + (result \<times> 'io state)" where
  "pop_two token m k =
     (if 2 > length (abyss m) then Inl (OpcodeError token NotEnoughBubbles, m)
      else (let (s1, a1) = array_pop (abyss m); (s2, a2) = array_pop a1
            in case (s1, s2) of
                 (Some b1, Some b2) \<Rightarrow> k b1 b2 (m\<lparr>abyss := a2\<rparr>)
               | _ \<Rightarrow> Inl (TypeError UndefinedOperand, m\<lparr>abyss := a2\<rparr>)))"

text \<open>The opcodes that need their parameter throw when the token after them is missing.\<close>

definition with_param ::
  "int list \<Rightarrow> 'io state \<Rightarrow> (int \<Rightarrow> (error \<times> 'io state) + (result \<times> 'io state))
     \<Rightarrow> (error \<times> 'io state) + (result \<times> 'io state)" where
  "with_param tokens m k =
     (case token_at tokens (cursor m + 1) of
        None \<Rightarrow> Inl (OpcodeError (tokens ! cursor m) NotEnoughArguments, m)
      | Some param \<Rightarrow> k param)"

text \<open>
  The conditional jumps look at the top of the abyss in place
  (\<^verbatim>\<open>abyss[abyss.length - 1]\<close>, \<^verbatim>\<open>abyss[abyss.length - 2]\<close>) and move the cursor only.
\<close>

definition jump_if :: "bool \<Rightarrow> labels \<Rightarrow> int \<Rightarrow> 'io state \<Rightarrow> 'io state" where
  "jump_if test labels param m =
     (case labels param of
        Some target \<Rightarrow> if test then m\<lparr>cursor := target\<rparr> else m\<lparr>cursor := cursor m + 1\<rparr>
      | None \<Rightarrow> m\<lparr>cursor := cursor m + 1\<rparr>)"

text \<open>
  The comparators as the interpreter calls them, on entries of the abyss that may be
  \<^verbatim>\<open>undefined\<close>. \<^verbatim>\<open>Comparator.equal\<close> calls \<^verbatim>\<open>isDouble()\<close> on both operands before
  anything else, so it throws when either is \<^verbatim>\<open>undefined\<close>. \<^verbatim>\<open>Comparator.less\<close> and
  \<^verbatim>\<open>greater\<close> test \<^verbatim>\<open>false === b1.isDouble() && false === b2.isDouble()\<close>: they throw
  on an \<^verbatim>\<open>undefined\<close> first operand, answer false on a double first operand without
  looking at the second, and throw on an \<^verbatim>\<open>undefined\<close> second operand only after a
  single first one. \<^verbatim>\<open>Comparator.zero\<close> has one operand.
\<close>

definition equal_entries :: "slot \<Rightarrow> slot \<Rightarrow> error + bool" where
  "equal_entries s1 s2 =
     (case s1 of
        None \<Rightarrow> Inl (TypeError UndefinedOperand)
      | Some b1 \<Rightarrow>
          (case s2 of
             None \<Rightarrow> Inl (TypeError UndefinedOperand)
           | Some b2 \<Rightarrow> Inr (Comparator_equal b1 b2)))"

definition less_entries :: "js_ops \<Rightarrow> slot \<Rightarrow> slot \<Rightarrow> error + bool" where
  "less_entries J s1 s2 =
     (case s1 of
        None \<Rightarrow> Inl (TypeError UndefinedOperand)
      | Some b1 \<Rightarrow>
          if Bubble_isDouble b1 then Inr False
          else (case s2 of
                  None \<Rightarrow> Inl (TypeError UndefinedOperand)
                | Some b2 \<Rightarrow> Inr (Comparator_less J b1 b2)))"

definition greater_entries :: "js_ops \<Rightarrow> slot \<Rightarrow> slot \<Rightarrow> error + bool" where
  "greater_entries J s1 s2 =
     (case s1 of
        None \<Rightarrow> Inl (TypeError UndefinedOperand)
      | Some b1 \<Rightarrow>
          if Bubble_isDouble b1 then Inr False
          else (case s2 of
                  None \<Rightarrow> Inl (TypeError UndefinedOperand)
                | Some b2 \<Rightarrow> Inr (Comparator_greater J b1 b2)))"

definition zero_entry :: "slot \<Rightarrow> error + bool" where
  "zero_entry s1 =
     (case s1 of
        None \<Rightarrow> Inl (TypeError UndefinedOperand)
      | Some b1 \<Rightarrow> Inr (Comparator_zero b1))"

text \<open>
  The three jumps on two bubbles: the first operand of the comparator is the top of the
  abyss, the second the entry below it.
\<close>

definition compare_top_two ::
  "(slot \<Rightarrow> slot \<Rightarrow> error + bool) \<Rightarrow> labels \<Rightarrow> int list \<Rightarrow> 'io state
     \<Rightarrow> (error \<times> 'io state) + (result \<times> 'io state)" where
  "compare_top_two test labels tokens m =
     with_param tokens m (\<lambda>param.
       if 2 > length (abyss m)
         then Inl (OpcodeError (tokens ! cursor m) NotEnoughBubbles, m)
       else (case test (abyss m ! (length (abyss m) - 1)) (abyss m ! (length (abyss m) - 2)) of
               Inl e \<Rightarrow> Inl (e, m)
             | Inr t \<Rightarrow> Inr (Null, jump_if t labels param m)))"

text \<open>
  The \<^verbatim>\<open>switch\<close> of the main loop, on the code of the token at the cursor. It returns
  what the opcode leaves in \<^verbatim>\<open>result\<close> and the state after it, or the error thrown and
  the state it was thrown in. An opcode with a parameter moves the cursor onto it.
\<close>

definition exec ::
  "js_ops \<Rightarrow> 'io inout \<Rightarrow> labels \<Rightarrow> int list \<Rightarrow> 'io state
     \<Rightarrow> (error \<times> 'io state) + (result \<times> 'io state)" where
  "exec J IO labels tokens m =
     (let token = tokens ! cursor m;
          code = OPCODES_get token
      in if code = NOP then Inr (Null, m)
         else if code = PRN then
           pop_one token m (\<lambda>b m'.
             case io_write IO (io m') b of
               Inl (e, s) \<Rightarrow> Inl (e, m'\<lparr>io := s\<rparr>)
             | Inr s \<Rightarrow> Inr (Null, m'\<lparr>io := s\<rparr>))
         else if code = PR1 then
           pop_one token m (\<lambda>b m'.
             case io_writeRaw IO (io m') b of
               Inl (e, s) \<Rightarrow> Inl (e, m'\<lparr>io := s\<rparr>)
             | Inr s \<Rightarrow> Inr (Null, m'\<lparr>io := s\<rparr>))
         else if code = RED then
           (case io_read IO (io m) of
              Inl (e, s) \<Rightarrow> Inl (e, m\<lparr>io := s\<rparr>)
            | Inr (b, s) \<Rightarrow> Inr (One b, m\<lparr>io := s\<rparr>))
         else if code = R3D then
           (case io_readRaw IO (io m) of
              Inl (e, s) \<Rightarrow> Inl (e, m\<lparr>io := s\<rparr>)
            | Inr (b, s) \<Rightarrow> Inr (One b, m\<lparr>io := s\<rparr>))
         else if code = BLO then
           with_param tokens m (\<lambda>param.
             Inr (One (Bubble [Num param]), m\<lparr>cursor := cursor m + 1\<rparr>))
         else if code = SBM then
           with_param tokens m (\<lambda>param.
             Inr (Null, m\<lparr>abyss := Abysser_submerge (abyss m) param,
                          cursor := cursor m + 1\<rparr>))
         else if code = POP then
           pop_one token m (\<lambda>b m'. Inr (Abysser_pop b, m'))
         else if code = DPL then
           pop_one token m (\<lambda>b m'. Inr (Abysser_duplicate b, m'))
         else if code = SRN then
           with_param tokens m (\<lambda>param.
             if param > int (length (abyss m))
               then Inl (OpcodeError token NotEnoughBubbles, m)
             else (case Abysser_surround (abyss m) param of
                     Inl (e, a) \<Rightarrow> Inl (e, m\<lparr>abyss := a\<rparr>)
                   | Inr (b, a) \<Rightarrow> Inr (One b, m\<lparr>abyss := a, cursor := cursor m + 1\<rparr>)))
         else if code = MRG then
           (if 2 > length (abyss m) then Inl (OpcodeError token NotEnoughBubbles, m)
            else (let (s1, a1) = array_pop (abyss m); (s2, a2) = array_pop a1
                  in case Abysser_merge s1 s2 of
                       Inl e \<Rightarrow> Inl (e, m\<lparr>abyss := a2\<rparr>)
                     | Inr b \<Rightarrow> Inr (One b, m\<lparr>abyss := a2\<rparr>)))
         else if code = DD4 then
           pop_two token m (\<lambda>b1 b2 m'.
             Inr (One (Arith_add J (fresh m') b1 b2), m'\<lparr>fresh := fresh m' + 1\<rparr>))
         else if code = SUB then
           pop_two token m (\<lambda>b1 b2 m'.
             Inr (One (Arith_sub J (fresh m') b1 b2), m'\<lparr>fresh := fresh m' + 1\<rparr>))
         else if code = MUL then
           pop_two token m (\<lambda>b1 b2 m'.
             Inr (One (Arith_mul J (fresh m') b1 b2), m'\<lparr>fresh := fresh m' + 1\<rparr>))
         else if code = DIV then
           pop_two token m (\<lambda>b1 b2 m'.
             case Arith_div b1 b2 of
               Inl e \<Rightarrow> Inl (e, m')
             | Inr b \<Rightarrow> Inr (One b, m'))
         else if code = CNT then
           (if 0 = length (abyss m) then Inl (OpcodeError token NotEnoughBubbles, m)
            else (case abyss m ! (length (abyss m) - 1) of
                    None \<Rightarrow> Inl (TypeError UndefinedOperand, m)
                  | Some b \<Rightarrow> Inr (One (Bubble [Num (int (Bubble_size b))]), m)))
         else if code = LBL then Inr (Null, m\<lparr>cursor := cursor m + 1\<rparr>)
         else if code = JMP then
           with_param tokens m (\<lambda>param.
             case labels param of
               None \<Rightarrow> Inr (Null, m\<lparr>cursor := cursor m + 1\<rparr>)
             | Some target \<Rightarrow> Inr (Null, m\<lparr>cursor := target\<rparr>))
         else if code = EQL then compare_top_two equal_entries labels tokens m
         else if code = LSS then compare_top_two (less_entries J) labels tokens m
         else if code = GR8 then compare_top_two (greater_entries J) labels tokens m
         else if code = EQZ then
           with_param tokens m (\<lambda>param.
             if 0 = length (abyss m) then Inl (OpcodeError token NotEnoughBubbles, m)
             else (case zero_entry (abyss m ! (length (abyss m) - 1)) of
                     Inl e \<Rightarrow> Inl (e, m)
                   | Inr t \<Rightarrow> Inr (Null, jump_if t labels param m)))
         else if code = TRM then Inr (Null, m\<lparr>cursor := length tokens\<rparr>)
         else Inl (OpcodeError token InvalidOpcode, m))"

text \<open>
  \<^verbatim>\<open>oplimit\<close>, and one pass through the body of the main loop with \<^verbatim>\<open>executed\<close>
  operations behind it: the opcode, the push of its result, the step of the cursor, the
  count, the limit. An error comes with the state and the count it was thrown at.
\<close>

definition oplimit :: nat where
  "oplimit = 10000"

definition iteration ::
  "js_ops \<Rightarrow> 'io inout \<Rightarrow> labels \<Rightarrow> int list \<Rightarrow> 'io state \<Rightarrow> nat
     \<Rightarrow> (error \<times> 'io state \<times> nat) + ('io state \<times> nat)" where
  "iteration J IO labels tokens m executed =
     (case exec J IO labels tokens m of
        Inl (e, m') \<Rightarrow> Inl (e, m', executed)
      | Inr (res, m') \<Rightarrow>
          (let m'' = m'\<lparr>abyss := push_result res (abyss m'), cursor := cursor m' + 1\<rparr>
           in if executed + 1 \<ge> oplimit then Inl (LimitError, m'', executed + 1)
              else Inr (m'', executed + 1)))"

function main_loop ::
  "js_ops \<Rightarrow> 'io inout \<Rightarrow> labels \<Rightarrow> int list \<Rightarrow> 'io state \<Rightarrow> nat
     \<Rightarrow> (error \<times> 'io state \<times> nat) + ('io state \<times> nat)" where
  "main_loop J IO labels tokens m executed =
     (if cursor m < length tokens then
        (case iteration J IO labels tokens m executed of
           Inl err \<Rightarrow> Inl err
         | Inr (m', executed') \<Rightarrow> main_loop J IO labels tokens m' executed')
      else Inr (m, executed))"
  by pat_completeness auto
termination
  by (relation "measure (\<lambda>(J, IO, labels, tokens, m, executed). oplimit - executed)")
     (auto simp: iteration_def Let_def split: sum.splits prod.splits if_splits)

declare main_loop.simps [simp del]

text \<open>
  \<^verbatim>\<open>interpreter\<close>: the label scan, the main loop from cursor 0 and count 0, then the
  value of the last bubble (0 on an empty abyss) and the reset of the abyss. It returns
  the value, or the error, with the state left behind and the number of operations
  executed.
\<close>

definition interpreter ::
  "js_ops \<Rightarrow> 'io inout \<Rightarrow> int list \<Rightarrow> 'io state
     \<Rightarrow> (error \<times> 'io state \<times> nat) + (jsval \<times> 'io state \<times> nat)" where
  "interpreter J IO tokens m =
     (case register_labels tokens 0 Map.empty of
        Inl e \<Rightarrow> Inl (e, m, 0)
      | Inr labels \<Rightarrow>
          (case main_loop J IO labels tokens (m\<lparr>cursor := 0\<rparr>) 0 of
             Inl err \<Rightarrow> Inl err
           | Inr (m', executed) \<Rightarrow>
               if length (abyss m') > 0 then
                 (case array_pop (abyss m') of
                    (None, a) \<Rightarrow> Inl (TypeError UndefinedOperand, m'\<lparr>abyss := a\<rparr>, executed)
                  | (Some b, a) \<Rightarrow> Inr (Bubble_value b, m'\<lparr>abyss := []\<rparr>, executed))
               else Inr (Prim (Num 0), m'\<lparr>abyss := []\<rparr>, executed)))"

section \<open>AWA5\<close>

text \<open>
  An instance keeps its abyss and its transports between runs (\<open>heap\<close> is the next array
  identity). \<^verbatim>\<open>run\<close> returns the result of the interpreter, or 1 from its \<^verbatim>\<open>catch\<close>.
\<close>

record 'io awa5 =
  this_abyss :: "slot list"
  this_io :: 'io
  heap :: nat

definition run :: "js_ops \<Rightarrow> 'io inout \<Rightarrow> 'io awa5 \<Rightarrow> string \<Rightarrow> jsval \<times> 'io awa5" where
  "run J IO this input =
     (case parser input of
        Inl e \<Rightarrow> (Prim (Num 1), this\<lparr>this_io := io_report IO (this_io this) e\<rparr>)
      | Inr tokens \<Rightarrow>
          (case interpreter J IO tokens
                  \<lparr>cursor = 0, abyss = this_abyss this, io = this_io this, fresh = heap this\<rparr> of
             Inl (e, m, executed) \<Rightarrow>
               (Prim (Num 1),
                \<lparr>this_abyss = abyss m, this_io = io_report IO (io m) e, heap = fresh m\<rparr>)
           | Inr (v, m, executed) \<Rightarrow>
               (v, \<lparr>this_abyss = abyss m, this_io = io_reset IO (io m), heap = fresh m\<rparr>)))"

section \<open>Readings of the outcomes\<close>

text \<open>The state an opcode ends in and the result it leaves, whether it threw or not; an
  opcode that throws leaves no result.\<close>

fun state_after :: "(error \<times> 'io state) + (result \<times> 'io state) \<Rightarrow> 'io state" where
  "state_after (Inl (e, m)) = m"
| "state_after (Inr (res, m)) = m"

fun result_of :: "(error \<times> 'io state) + (result \<times> 'io state) \<Rightarrow> result" where
  "result_of (Inl (e, m)) = Null"
| "result_of (Inr (res, m)) = res"

text \<open>The state a pass through the loop body ends in.\<close>

fun state_after_iteration :: "(error \<times> 'io state \<times> nat) + ('io state \<times> nat) \<Rightarrow> 'io state" where
  "state_after_iteration (Inl (e, m, n)) = m"
| "state_after_iteration (Inr (m, n)) = m"

section \<open>An instance of the parameters\<close>

text \<open>
  For runs on concrete programs: operators that give \<open>NaN\<close> outside the exact integers
  (no run below applies one there), and transports with no state that accept every
  write and read an empty line.
\<close>

definition plain_ops :: js_ops where
  "plain_ops = \<lparr>op_plus = (\<lambda>x y. NaN), op_minus = (\<lambda>x y. NaN), op_times = (\<lambda>x y. NaN),
                 op_less = (\<lambda>x y. False)\<rparr>"

definition plain_io :: "unit inout" where
  "plain_io = \<lparr>io_write = (\<lambda>s b. Inr s), io_writeRaw = (\<lambda>s b. Inr s),
                io_read = (\<lambda>s. Inr (Bubble [Str ''0''], s)),
                io_readRaw = (\<lambda>s. Inr (Bubble [Num 0], s)),
                io_report = (\<lambda>s e. s), io_reset = (\<lambda>s. s)\<rparr>"

definition start :: "unit state" where
  "start = \<lparr>cursor = 0, abyss = [], io = (), fresh = 0\<rparr>"

section \<open>The tokenizer stops when fewer than two characters are left\<close>

text \<open>
  Claim C9, as the code has it. The loop of the tokenizer runs exactly while at least
  two characters are left after the cursor, and returns the tokens read so far when it
  stops. Every unit it decodes starts at the cursor, lies inside the text and moves the
  cursor to its end: the two characters \<^verbatim>\<open>wa\<close>, or the four characters of a zero or
  of the sign marker; and each of these spellings at the cursor is decoded into its bit
  (the sign marker as a first bit only), while with fewer than four characters left
  anything but \<^verbatim>\<open>wa\<close> is a syntax error. While the loop runs it passes the error on,
  or goes on from the end of the unit with the bit shifted in or the token pushed. So
  the text is read strictly left to right, and with two or three characters left the
  unit \<^verbatim>\<open>wa\<close> is still decoded: the loop then returns, with the token it completes
  pushed.
\<close>

theorem parser_stops_below_two_characters:
  "(parser_continues cleaned c \<longleftrightarrow> 2 \<le> length cleaned - c) \<and>
   (\<not> parser_continues cleaned c \<longrightarrow>
      parser_loop cleaned c bits target v parameter tokens = Inr tokens) \<and>
   (decode_unit cleaned c bits v = Inr (v', c') \<longrightarrow>
      c < c' \<and> c' \<le> length cleaned \<and>
      (c' = c + 2 \<and> take 2 (drop c cleaned) = ''wa'' \<or>
       c' = c + 4 \<and> take 4 (drop c cleaned) \<in> {'' awa'', '' ~wa''})) \<and>
   (2 \<le> length cleaned - c \<and> take 2 (drop c cleaned) = ''wa'' \<longrightarrow>
      decode_unit cleaned c bits v = Inr (2 * v + 1, c + 2)) \<and>
   (4 \<le> length cleaned - c \<and> take 4 (drop c cleaned) = '' awa'' \<longrightarrow>
      decode_unit cleaned c bits v = Inr (2 * v, c + 4)) \<and>
   (4 \<le> length cleaned - c \<and> take 4 (drop c cleaned) = '' ~wa'' \<and> bits = 0 \<longrightarrow>
      decode_unit cleaned c bits v = Inr (- 1, c + 4)) \<and>
   (length cleaned - c < 4 \<and> take 2 (drop c cleaned) \<noteq> ''wa'' \<longrightarrow>
      decode_unit cleaned c bits v = Inl (MalformedInput c)) \<and>
   (parser_continues cleaned c \<and> decode_unit cleaned c bits v = Inl e \<longrightarrow>
      parser_loop cleaned c bits target v parameter tokens = Inl e) \<and>
   (parser_continues cleaned c \<and> decode_unit cleaned c bits v = Inr (v', c') \<longrightarrow>
      parser_loop cleaned c bits target v parameter tokens =
        (if bits + 1 < target then parser_loop cleaned c' (bits + 1) target v' parameter tokens
         else if parameter then parser_loop cleaned c' 0 5 0 False (tokens @ [v'])
         else if OPCODES_parameterized (int (OPCODES_get v'))
           then parser_loop cleaned c' 0 8 0 True (tokens @ [v'])
         else parser_loop cleaned c' 0 target 0 parameter (tokens @ [v']))) \<and>
   (length cleaned - c \<in> {2, 3} \<and> take 2 (drop c cleaned) = ''wa'' \<longrightarrow>
      parser_loop cleaned c bits target v parameter tokens =
        Inr (if bits + 1 < target then tokens else tokens @ [2 * v + 1]))"
proof -
  have cont: "parser_continues cleaned c \<longleftrightarrow> 2 \<le> length cleaned - c"
    by (auto simp: parser_continues_def)
  have stop: "parser_loop cleaned k b t w p ts = Inr ts" if "\<not> parser_continues cleaned k"
    for k b t w p ts
    using that by (simp add: parser_loop.simps)
  have len: "c + n \<le> length cleaned"
    if "take n (drop c cleaned) = s" "length s = n" "0 < n" for n s
  proof -
    have "length (take n (drop c cleaned)) = min n (length cleaned - c)" by simp
    with that have "min n (length cleaned - c) = n" by simp
    with that show ?thesis by linarith
  qed
  have unit: "c < c' \<and> c' \<le> length cleaned \<and>
      (c' = c + 2 \<and> take 2 (drop c cleaned) = ''wa'' \<or>
       c' = c + 4 \<and> take 4 (drop c cleaned) \<in> {'' awa'', '' ~wa''})"
    if "decode_unit cleaned c bits v = Inr (v', c')"
    using that by (auto simp: decode_unit_def split: if_splits dest: len)
  have one: "decode_unit cleaned c bits v = Inr (2 * v + 1, c + 2)"
    if "take 2 (drop c cleaned) = ''wa''"
    using that by (simp add: decode_unit_def)
  have two: "take 2 (drop c cleaned) = take 2 s" if "take 4 (drop c cleaned) = s" for s
  proof -
    have "take 2 (take 4 (drop c cleaned)) = take 2 (drop c cleaned)" by simp
    with that show ?thesis by simp
  qed
  have zero: "decode_unit cleaned c bits v = Inr (2 * v, c + 4)"
    if "take 4 (drop c cleaned) = '' awa''"
    using that two [OF that] by (simp add: decode_unit_def)
  have sign: "decode_unit cleaned c bits v = Inr (- 1, c + 4)"
    if "take 4 (drop c cleaned) = '' ~wa''" "bits = 0"
    using that two [OF that(1)] by (simp add: decode_unit_def)
  have short: "decode_unit cleaned c bits v = Inl (MalformedInput c)"
    if "length cleaned - c < 4" "take 2 (drop c cleaned) \<noteq> ''wa''"
  proof -
    have l: "length (take 4 (drop c cleaned)) < 4" using that(1) by simp
    have ne: "take 4 (drop c cleaned) \<noteq> s" if "length s = 4" for s
    proof
      assume "take 4 (drop c cleaned) = s"
      with that have "length (take 4 (drop c cleaned)) = 4" by simp
      with l show False by simp
    qed
    have "take 4 (drop c cleaned) \<noteq> '' awa''" "take 4 (drop c cleaned) \<noteq> '' ~wa''"
      by (rule ne, simp)+
    with that(2) show ?thesis by (simp add: decode_unit_def)
  qed
  have err: "parser_loop cleaned c bits target v parameter tokens = Inl e"
    if "parser_continues cleaned c" "decode_unit cleaned c bits v = Inl e"
    using that by (subst parser_loop.simps) simp
  have step: "parser_loop cleaned c bits target v parameter tokens =
        (if bits + 1 < target then parser_loop cleaned c' (bits + 1) target v' parameter tokens
         else if parameter then parser_loop cleaned c' 0 5 0 False (tokens @ [v'])
         else if OPCODES_parameterized (int (OPCODES_get v'))
           then parser_loop cleaned c' 0 8 0 True (tokens @ [v'])
         else parser_loop cleaned c' 0 target 0 parameter (tokens @ [v']))"
    if "parser_continues cleaned c" "decode_unit cleaned c bits v = Inr (v', c')"
    using that by (subst parser_loop.simps) auto
  have last: "parser_loop cleaned c bits target v parameter tokens =
        Inr (if bits + 1 < target then tokens else tokens @ [2 * v + 1])"
    if "length cleaned - c \<in> {2, 3}" "take 2 (drop c cleaned) = ''wa''"
  proof -
    from that(1) have "parser_continues cleaned c" "\<not> parser_continues cleaned (c + 2)"
      by (auto simp: parser_continues_def)
    with one [OF that(2)] show ?thesis
      by (subst parser_loop.simps) (simp add: stop)
  qed
  from cont stop unit one zero sign short err step last show ?thesis
    by blast
qed


text \<open>On the text \<^verbatim>\<open>awawa\<close> with four bits of a token read: after the start marker two
  characters are left, the loop runs, reads the fifth bit from them and pushes the
  token 31; then none is left and the loop returns.\<close>

theorem parser_stops_below_two_characters_witness:
  "length ''awawa'' - 3 \<in> {2, 3::nat} \<and> take 2 (drop 3 ''awawa'') = ''wa'' \<and>
   parser_continues ''awawa'' 3 \<and> decode_unit ''awawa'' 3 4 15 = Inr (31, 5) \<and>
   parser_loop ''awawa'' 3 4 5 15 False [] = Inr [31] \<and>
   \<not> parser_continues ''awawa'' 5 \<and> parser_loop ''awawa'' 5 0 5 0 False [31] = Inr [31]"
proof -
  have h: "length ''awawa'' - 3 \<in> {2, 3::nat}" "take 2 (drop 3 ''awawa'') = ''wa''"
    "\<not> parser_continues ''awawa'' 5"
    by (simp_all add: parser_continues_def)
  from parser_stops_below_two_characters [of "''awawa''" 3 4 5 15 False "[]" 31 5] h(1,2)
  have "parser_continues ''awawa'' 3" "decode_unit ''awawa'' 3 4 15 = Inr (31, 5)"
    "parser_loop ''awawa'' 3 4 5 15 False [] = Inr [31]"
    by simp_all
  moreover from parser_stops_below_two_characters [of "''awawa''" 5 0 5 0 False "[31]"] h(3)
  have "parser_loop ''awawa'' 5 0 5 0 False [31] = Inr [31]"
    by blast
  ultimately show ?thesis using h by blast
qed

text \<open>
  Claim C9 as stated, that decoding stops as soon as fewer than four characters are
  left, fails on the program made of the terminate opcode, \<^verbatim>\<open>awawawawawawa\<close>: at
  cursor 11 two characters are left, the loop still runs and reads the fifth bit from
  them, and the parser returns the token 31.
\<close>

theorem parser_decodes_with_two_characters_left:
  "sanitize ''awawawawawawa'' = ''awawawawawawa'' \<and>
   length ''awawawawawawa'' - 11 < (4::nat) \<and>
   parser_continues ''awawawawawawa'' 11 \<and>
   decode_unit ''awawawawawawa'' 11 4 15 = Inr (31, 13) \<and>
   parser ''awawawawawawa'' = Inr [31]"
  by code_simp

section \<open>Evaluating runs\<close>

lemmas run_simps =
  exec_def opcodes OPCODES_get_def OPCODES_parameterized_def array_pop_def
  interpreter_def register_labels.simps main_loop.simps iteration_def
  scan_next_def token_at_def with_param_def pop_one_def pop_two_def oplimit_def
  Bubble_isDouble_def Bubble_size_def

text \<open>Three programs and their tokens: push 1, push 2, surround 2, push 10, add, count;
  push 1, push 2, merge; push 7, push 2, divide.\<close>

lemma program_sum_count:
  "parser ''awa awa awawa awawa awa awa awa awa awa awa awawa awa awawa awawa awa awa awa awa awa awawa awa awawa awa awawa awa awa awa awa awa awawa awa awa awawa awawa awa awa awa awawa awawa awa awawa awawawa awawawawawa''
   = Inr [5, 1, 5, 2, 9, 2, 5, 10, 11, 15]"
  by code_simp

lemma program_merge:
  "parser ''awa awa awawa awawa awa awa awa awa awa awa awawa awa awawa awawa awa awa awa awa awa awawa awa awawa awawa awa''
   = Inr [5, 1, 5, 2, 10]"
  by code_simp

lemma program_div:
  "parser ''awa awa awawa awawa awa awa awa awa awawawawa awa awawa awawa awa awa awa awa awa awawa awa awawawawa awa''
   = Inr [5, 7, 5, 2, 14]"
  by code_simp

section \<open>Broadcasting a scalar over a vector\<close>

text \<open>
  Claim C1, at a failing input. The add opcode on the vector \<open>[1, 2]\<close> and the scalar 10
  pushes a bubble whose backing is one element, the array \<open>[11, 12]\<close>: it is not a
  double bubble and its size is 0, where the claim has a vector of length 2. The program
  that pushes 1 and 2, surrounds them, pushes 10, adds and counts therefore returns 0.
\<close>

theorem broadcast_sum_is_not_a_vector:
  "exec J IO labels [11]
     \<lparr>cursor = 0, abyss = [Some (Bubble [Num 1, Num 2]), Some (Bubble [Num 10])], io = s, fresh = r\<rparr>
   = Inr (One (Boxed r [Num 11, Num 12]), \<lparr>cursor = 0, abyss = [], io = s, fresh = r + 1\<rparr>) \<and>
   \<not> Bubble_isDouble (Boxed r [Num 11, Num 12]) \<and>
   Bubble_size (Boxed r [Num 11, Num 12]) = 0 \<and>
   run J IO \<lparr>this_abyss = [], this_io = s, heap = r\<rparr>
     ''awa awa awawa awawa awa awa awa awa awa awa awawa awa awawa awawa awa awa awa awa awa awawa awa awawa awa awawa awa awa awa awa awa awawa awa awa awawa awawa awa awa awa awawa awawa awa awawa awawawa awawawawawa''
   = (Prim (Num 0), \<lparr>this_abyss = [], this_io = io_reset IO s, heap = r + 1\<rparr>)"
  by (simp add: run_def program_sum_count run_simps Arith_add_def Arith_apply_def exact_def
      Abysser_surround_def numeral_2_eq_2)

text \<open>
  What the three functions do whenever exactly one operand is a double bubble, for any
  operator \<open>f\<close>: the result is the bubble whose backing holds one array, the operator
  applied to each element of the double bubble and to the value of the other; the array
  is as long as the double bubble, and the result is not double and has size 0.
\<close>

theorem broadcast_boxes_the_mapped_array:
  "(Bubble_isDouble b1 \<and> \<not> Bubble_isDouble b2 \<longrightarrow>
      Arith_apply f r b1 b2
        = Boxed r (map (\<lambda>e. f (Prim e) (Bubble_value b2)) (items (Bubble_value b1))) \<and>
      length (items (Bubble_value (Arith_apply f r b1 b2))) = Bubble_size b1) \<and>
   (\<not> Bubble_isDouble b1 \<and> Bubble_isDouble b2 \<longrightarrow>
      Arith_apply f r b1 b2
        = Boxed r (map (\<lambda>e. f (Prim e) (Bubble_value b1)) (items (Bubble_value b2))) \<and>
      length (items (Bubble_value (Arith_apply f r b1 b2))) = Bubble_size b2) \<and>
   (Bubble_isDouble b1 \<noteq> Bubble_isDouble b2 \<longrightarrow>
      \<not> Bubble_isDouble (Arith_apply f r b1 b2) \<and> Bubble_size (Arith_apply f r b1 b2) = 0)"
proof -
  have sz: "length (items (Bubble_value v)) = Bubble_size v" if "Bubble_isDouble v" for v
    using that by (cases v) (auto simp: Bubble_isDouble_def Bubble_size_def)
  show ?thesis
    by (cases "Bubble_isDouble b1")
      (auto simp: Arith_apply_def Let_def sz Bubble_isDouble_def Bubble_size_def)
qed

text \<open>The scalar 10 minus the vector \<open>[1, 2]\<close>: each element minus the scalar, boxed.\<close>

theorem broadcast_boxes_the_mapped_array_witness:
  "\<not> Bubble_isDouble (Bubble [Num 10]) \<and> Bubble_isDouble (Bubble [Num 1, Num 2]) \<and>
   Arith_sub plain_ops 0 (Bubble [Num 10]) (Bubble [Num 1, Num 2]) = Boxed 0 [Num (- 9), Num (- 8)] \<and>
   Bubble_size (Arith_sub plain_ops 0 (Bubble [Num 10]) (Bubble [Num 1, Num 2])) = 0"
  using broadcast_boxes_the_mapped_array
    [of "Bubble [Num 10]" "Bubble [Num 1, Num 2]" "js_minus plain_ops" 0]
  by (auto simp: Arith_sub_def Bubble_isDouble_def Bubble_size_def exact_def)

section \<open>Merging two scalars\<close>

text \<open>
  Claim C2, at a failing input. The merge opcode on two scalar bubbles pops both and
  throws a \<^verbatim>\<open>TypeError\<close> (the assignment to the constant \<^verbatim>\<open>bubble\<close>); nothing is
  pushed, and the run of push 1, push 2, merge ends in the \<^verbatim>\<open>catch\<close> of \<^verbatim>\<open>run\<close> with 1.
\<close>

theorem merge_of_two_scalars_throws:
  "exec J IO labels [10]
     \<lparr>cursor = 0, abyss = [Some (Bubble [Num q]), Some (Bubble [Num p])], io = s, fresh = r\<rparr>
   = Inl (TypeError AssignmentToConstant, \<lparr>cursor = 0, abyss = [], io = s, fresh = r\<rparr>) \<and>
   run J IO \<lparr>this_abyss = [], this_io = s, heap = r\<rparr>
     ''awa awa awawa awawa awa awa awa awa awa awa awawa awa awawa awawa awa awa awa awa awa awawa awa awawa awawa awa''
   = (Prim (Num 1),
      \<lparr>this_abyss = [], this_io = io_report IO s (TypeError AssignmentToConstant), heap = r\<rparr>)"
  by (simp add: run_def program_merge run_simps Abysser_merge_def)

text \<open>
  \<^verbatim>\<open>Abysser.merge\<close> returns for no operands, so the merge opcode ends in an error in
  every state: the opcode error on fewer than two bubbles, a thrown exception otherwise.
\<close>

theorem merge_never_returns:
  "(\<exists>e. Abysser_merge s1 s2 = Inl e) \<and>
   (OPCODES_get (tokens ! cursor m) = MRG \<longrightarrow> (\<exists>e m'. exec J IO labels tokens m = Inl (e, m')))"
proof -
  have 1: "Abysser_merge x y \<noteq> Inr b" for x y b
    by (auto simp: Abysser_merge_def split: option.splits)
  have 2: "\<exists>e. Abysser_merge s1 s2 = Inl e"
    using 1 [of s1 s2] by (cases "Abysser_merge s1 s2") auto
  have 3: "\<exists>e m'. exec J IO labels tokens m = Inl (e, m')"
    if "OPCODES_get (tokens ! cursor m) = MRG"
    using that 1
    by (auto simp: exec_def opcodes Let_def split: prod.splits sum.splits)
  from 2 3 show ?thesis by blast
qed

theorem merge_never_returns_witness:
  "OPCODES_get ([10] ! cursor start) = MRG \<and>
   exec plain_ops plain_io Map.empty [10] start = Inl (OpcodeError 10 NotEnoughBubbles, start)"
  using merge_never_returns [of None None "[10]" start plain_ops plain_io Map.empty]
  by (simp add: run_simps start_def)

section \<open>Dividing two scalars\<close>

text \<open>
  Claim C3, at a failing input. The div opcode on two scalar bubbles pops both and
  throws a \<^verbatim>\<open>ReferenceError\<close> (the undeclared \<^verbatim>\<open>bv1\<close>) before any quotient is
  computed; nothing is pushed, and the run of push 7, push 2, divide ends with 1.
\<close>

theorem div_of_two_scalars_throws:
  "exec J IO labels [14]
     \<lparr>cursor = 0, abyss = [Some (Bubble [Num y]), Some (Bubble [Num x])], io = s, fresh = r\<rparr>
   = Inl (ReferenceError ''bv1'', \<lparr>cursor = 0, abyss = [], io = s, fresh = r\<rparr>) \<and>
   run J IO \<lparr>this_abyss = [], this_io = s, heap = r\<rparr>
     ''awa awa awawa awawa awa awa awa awa awawawawa awa awawa awawa awa awa awa awa awa awawa awa awawawawa awa''
   = (Prim (Num 1),
      \<lparr>this_abyss = [], this_io = io_report IO s (ReferenceError ''bv1''), heap = r\<rparr>)"
  by (simp add: run_def program_div run_simps Arith_div_def)

text \<open>
  \<^verbatim>\<open>Arith.div\<close> returns for no operands, so the div opcode ends in an error in every
  state.
\<close>

theorem div_never_returns:
  "(\<exists>e. Arith_div b1 b2 = Inl e) \<and>
   (OPCODES_get (tokens ! cursor m) = DIV \<longrightarrow> (\<exists>e m'. exec J IO labels tokens m = Inl (e, m')))"
  by (auto simp: Arith_div_def exec_def opcodes Let_def pop_two_def
      split: prod.splits sum.splits option.splits)

theorem div_never_returns_witness:
  "OPCODES_get ([14] ! cursor start) = DIV \<and>
   exec plain_ops plain_io Map.empty [14] start = Inl (OpcodeError 14 NotEnoughBubbles, start)"
  using div_never_returns [of "Bubble []" "Bubble []" "[14]" start plain_ops plain_io Map.empty]
  by (simp add: run_simps start_def)

section \<open>Greater is less\<close>

text \<open>
  Claim C4. For all bubbles, \<^verbatim>\<open>Comparator.greater\<close> returns what \<^verbatim>\<open>Comparator.less\<close>
  returns: true exactly when neither bubble is double and the value of the first is
  less (\<^verbatim>\<open><\<close>) than the value of the second, so false as soon as one of them is a
  vector; on two integers \<open>x\<close> and \<open>y\<close> it is \<open>x < y\<close>.
\<close>

theorem greater_is_less:
  "Comparator_greater J b1 b2 = Comparator_less J b1 b2 \<and>
   (Comparator_greater J b1 b2 \<longleftrightarrow>
      \<not> Bubble_isDouble b1 \<and> \<not> Bubble_isDouble b2 \<and>
      js_less J (Bubble_value b1) (Bubble_value b2)) \<and>
   (Bubble_isDouble b1 \<or> Bubble_isDouble b2 \<longrightarrow> \<not> Comparator_greater J b1 b2) \<and>
   Comparator_greater J (Bubble [Num x]) (Bubble [Num y]) = (x < y)"
  by (simp add: Comparator_greater_def Comparator_less_def Bubble_isDouble_def)

theorem greater_is_less_witness:
  "Comparator_greater plain_ops (Bubble [Num 1]) (Bubble [Num 2]) \<and>
   Comparator_less plain_ops (Bubble [Num 1]) (Bubble [Num 2]) \<and>
   \<not> Comparator_greater plain_ops (Bubble [Num 2]) (Bubble [Num 1]) \<and>
   Bubble_isDouble (Bubble [Num 1, Num 2]) \<and>
   \<not> Comparator_greater plain_ops (Bubble [Num 1, Num 2]) (Bubble [Num 3])"
  using greater_is_less [of plain_ops "Bubble [Num 1]" "Bubble [Num 2]" 1 2]
    greater_is_less [of plain_ops "Bubble [Num 1, Num 2]" "Bubble [Num 3]" 2 1]
  by (auto simp: Bubble_isDouble_def)

section \<open>The budget of 10000 operations\<close>

lemma self_jump_labels:
  "register_labels [16, l, 17, l] 0 Map.empty = Inr [l \<mapsto> 1]"
  by (simp add: register_labels.simps OPCODES_get_def opcodes OPCODES_parameterized_def
      scan_next_def token_at_def)

lemma self_jump_iteration:
  "cursor m = 2 \<Longrightarrow> labels l = Some 1 \<Longrightarrow>
   iteration J IO labels [16, l, 17, l] m n =
     (if n + 1 \<ge> oplimit then Inl (LimitError, m, n + 1) else Inr (m, n + 1))"
  by (simp add: iteration_def exec_def OPCODES_get_def opcodes with_param_def token_at_def)

lemma self_jump_loop:
  "cursor m = 2 \<Longrightarrow> labels l = Some 1 \<Longrightarrow> n < oplimit \<Longrightarrow>
   main_loop J IO labels [16, l, 17, l] m n = Inl (LimitError, m, oplimit)"
proof (induction "oplimit - n" arbitrary: n)
  case 0
  then show ?case by simp
next
  case (Suc k)
  show ?case
  proof (cases "n + 1 \<ge> oplimit")
    case True
    with Suc.prems have "n + 1 = oplimit" by simp
    with Suc.prems show ?thesis
      by (subst main_loop.simps) (simp add: self_jump_iteration)
  next
    case False
    with Suc have "main_loop J IO labels [16, l, 17, l] m (n + 1) = Inl (LimitError, m, oplimit)"
      by simp
    with False Suc.prems show ?thesis
      by (subst main_loop.simps) (simp add: self_jump_iteration)
  qed
qed

lemma self_jump_from_start:
  assumes "labels l = Some 1"
  shows "main_loop J IO labels [16, l, 17, l] (m\<lparr>cursor := 0\<rparr>) 0
     = Inl (LimitError, m\<lparr>cursor := 2\<rparr>, oplimit)"
proof -
  have "iteration J IO labels [16, l, 17, l] (m\<lparr>cursor := 0\<rparr>) 0 = Inr (m\<lparr>cursor := 2\<rparr>, 1)"
    by (simp add: iteration_def exec_def OPCODES_get_def opcodes oplimit_def)
  moreover have "main_loop J IO labels [16, l, 17, l] (m\<lparr>cursor := 2\<rparr>) 1
     = Inl (LimitError, m\<lparr>cursor := 2\<rparr>, oplimit)"
    using assms by (intro self_jump_loop) (simp_all add: oplimit_def)
  ultimately show ?thesis
    by (subst main_loop.simps) simp
qed

text \<open>
  Claim C5. The program that defines a label \<open>l\<close> and jumps to it, run from any state,
  fails with the limit error when the count of executed operations is exactly 10000.
  The label scan maps \<open>l\<close> to the index of the label's parameter; the definition is the
  first operation, and every pass of the loop after it finds the cursor on the jump:
  with fewer than 9999 operations behind it the pass hands the loop the same cursor and
  one operation more, and with 9999 behind it the pass throws.
\<close>

theorem self_jump_fails_at_10000:
  "interpreter J IO [16, l, 17, l] m = Inl (LimitError, m\<lparr>cursor := 2\<rparr>, 10000) \<and>
   register_labels [16, l, 17, l] 0 Map.empty = Inr [l \<mapsto> 1] \<and>
   (\<forall>n < 9999. iteration J IO [l \<mapsto> 1] [16, l, 17, l] (m\<lparr>cursor := 2\<rparr>) n
        = Inr (m\<lparr>cursor := 2\<rparr>, n + 1)) \<and>
   iteration J IO [l \<mapsto> 1] [16, l, 17, l] (m\<lparr>cursor := 2\<rparr>) 9999
        = Inl (LimitError, m\<lparr>cursor := 2\<rparr>, 10000)"
proof (intro conjI allI impI)
  show ls: "register_labels [16, l, 17, l] 0 Map.empty = Inr [l \<mapsto> 1]"
    by (rule self_jump_labels)
  show "interpreter J IO [16, l, 17, l] m = Inl (LimitError, m\<lparr>cursor := 2\<rparr>, 10000)"
    using self_jump_from_start [of "[l \<mapsto> 1]" l J IO m]
    by (simp add: interpreter_def ls oplimit_def)
  show "iteration J IO [l \<mapsto> 1] [16, l, 17, l] (m\<lparr>cursor := 2\<rparr>) n
        = Inr (m\<lparr>cursor := 2\<rparr>, n + 1)" if "n < 9999" for n
    using that self_jump_iteration [of "m\<lparr>cursor := 2\<rparr>" "[l \<mapsto> 1]" l J IO n]
    by (simp add: oplimit_def)
  show "iteration J IO [l \<mapsto> 1] [16, l, 17, l] (m\<lparr>cursor := 2\<rparr>) 9999
        = Inl (LimitError, m\<lparr>cursor := 2\<rparr>, 10000)"
    using self_jump_iteration [of "m\<lparr>cursor := 2\<rparr>" "[l \<mapsto> 1]" l J IO 9999]
    by (simp add: oplimit_def)
qed

text \<open>The program with label 1, as text and as tokens, on a new interpreter.\<close>

theorem self_jump_fails_at_10000_witness:
  "parser ''awawa awa awa awa awa awa awa awa awa awa awa awawawa awa awa awawa awa awa awa awa awa awa awawa''
     = Inr [16, 1, 17, 1] \<and>
   interpreter plain_ops plain_io [16, 1, 17, 1] start
     = Inl (LimitError, start\<lparr>cursor := 2\<rparr>, 10000) \<and>
   (5::nat) < 9999 \<and>
   iteration plain_ops plain_io [1 \<mapsto> 1] [16, 1, 17, 1] (start\<lparr>cursor := 2\<rparr>) 5
     = Inr (start\<lparr>cursor := 2\<rparr>, 6)"
proof -
  have "parser ''awawa awa awa awa awa awa awa awa awa awa awa awawawa awa awa awawa awa awa awa awa awa awa awawa''
     = Inr [16, 1, 17, 1]"
    by code_simp
  then show ?thesis
    using self_jump_fails_at_10000 [of plain_ops plain_io 1 start] by simp
qed

lemma main_loop_count:
  "main_loop J IO labels tokens m k = Inr (m', n) \<Longrightarrow> k < oplimit \<Longrightarrow> n < oplimit"
proof (induction J IO labels tokens m k rule: main_loop.induct)
  case (1 J IO labels tokens m executed)
  show ?case
  proof (cases "cursor m < length tokens")
    case False
    with "1.prems" show ?thesis by (simp add: main_loop.simps)
  next
    case True
    with "1.prems" obtain m1 k1 where
      it: "iteration J IO labels tokens m executed = Inr (m1, k1)"
      and rest: "main_loop J IO labels tokens m1 k1 = Inr (m', n)"
      by (subst (asm) main_loop.simps) (auto split: sum.splits)
    from it have "k1 < oplimit"
      by (auto simp: iteration_def Let_def split: sum.splits prod.splits if_splits)
    with "1.IH" [OF True it refl rest] show ?thesis .
  qed
qed

lemma nops_loop:
  "cursor m = n \<Longrightarrow> n < oplimit \<Longrightarrow>
   main_loop J IO labels (replicate oplimit 0) m n
     = Inl (LimitError, m\<lparr>cursor := oplimit\<rparr>, oplimit)"
proof (induction "oplimit - n" arbitrary: n m)
  case 0
  then show ?case by simp
next
  case (Suc k)
  have it: "iteration J IO labels (replicate oplimit 0) m n =
     (if n + 1 \<ge> oplimit then Inl (LimitError, m\<lparr>cursor := n + 1\<rparr>, n + 1)
      else Inr (m\<lparr>cursor := n + 1\<rparr>, n + 1))"
    using Suc.prems by (simp add: iteration_def exec_def OPCODES_get_def opcodes)
  show ?case
  proof (cases "n + 1 \<ge> oplimit")
    case True
    with Suc.prems have "n + 1 = oplimit" by simp
    with Suc.prems show ?thesis
      by (subst main_loop.simps) (simp add: it)
  next
    case False
    with Suc have "main_loop J IO labels (replicate oplimit 0) (m\<lparr>cursor := n + 1\<rparr>) (n + 1)
       = Inl (LimitError, m\<lparr>cursor := n + 1, cursor := oplimit\<rparr>, oplimit)"
      by simp
    with False Suc.prems show ?thesis
      by (subst main_loop.simps) (simp add: it)
  qed
qed

lemma nops_labels:
  "register_labels (replicate oplimit 0) i ls = Inr ls"
proof (induction "oplimit - i" arbitrary: i)
  case 0
  then show ?case by (subst register_labels.simps) simp
next
  case (Suc k)
  then have "register_labels (replicate oplimit 0) (i + 1) ls = Inr ls" by simp
  with Suc.hyps(2) show ?case
    by (subst register_labels.simps)
      (simp add: OPCODES_get_def opcodes OPCODES_parameterized_def scan_next_def)
qed

text \<open>
  Claim C10. Whatever the tokens, the state and the transports, a run of the interpreter
  that returns a value has executed at most 9999 operations, and so has a main loop
  that ends normally. A pass through the loop body with 9999 operations behind it never
  hands control back to the loop condition: when its opcode throws, the pass ends in
  that error, and when its opcode returns, the pass pushes the result, steps the cursor
  and throws the limit error with the count 10000, wherever the cursor then stands;
  so does the main loop entered with 9999 operations behind it. The program of 10000
  no-ops shows it: its 10000th operation moves the cursor to the end of the tokens,
  where the loop would stop, and the run fails with the limit error.
\<close>

theorem normal_return_stays_below_limit:
  "(interpreter J IO tokens m = Inr (v, m', n) \<longrightarrow> n \<le> 9999) \<and>
   (main_loop J IO labels tokens m 0 = Inr (m', n) \<longrightarrow> n \<le> 9999) \<and>
   (\<forall>x. iteration J IO labels tokens m 9999 \<noteq> Inr x) \<and>
   (exec J IO labels tokens m = Inr (res, m1) \<longrightarrow>
      iteration J IO labels tokens m 9999
        = Inl (LimitError,
               m1\<lparr>abyss := push_result res (abyss m1), cursor := cursor m1 + 1\<rparr>, 10000)) \<and>
   (exec J IO labels tokens m = Inl (e, m1) \<longrightarrow>
      iteration J IO labels tokens m 9999 = Inl (e, m1, 9999)) \<and>
   (cursor m < length tokens \<and> exec J IO labels tokens m = Inr (res, m1) \<longrightarrow>
      main_loop J IO labels tokens m 9999
        = Inl (LimitError,
               m1\<lparr>abyss := push_result res (abyss m1), cursor := cursor m1 + 1\<rparr>, 10000)) \<and>
   interpreter J IO (replicate 10000 0) m
     = Inl (LimitError, m\<lparr>cursor := length (replicate 10000 (0::int))\<rparr>, 10000)"
proof (intro conjI impI allI)
  assume "main_loop J IO labels tokens m 0 = Inr (m', n)"
  then show "n \<le> 9999"
    using main_loop_count [of J IO labels tokens m 0 m' n] by (simp add: oplimit_def)
next
  assume r: "interpreter J IO tokens m = Inr (v, m', n)"
  then obtain ls m2 where "main_loop J IO ls tokens (m\<lparr>cursor := 0\<rparr>) 0 = Inr (m2, n)"
    by (auto simp: interpreter_def split: sum.splits prod.splits if_splits option.splits)
  then show "n \<le> 9999"
    using main_loop_count [of J IO ls tokens "m\<lparr>cursor := 0\<rparr>" 0 m2 n] by (simp add: oplimit_def)
next
  fix x show "iteration J IO labels tokens m 9999 \<noteq> Inr x"
    by (auto simp: iteration_def Let_def oplimit_def split: sum.splits prod.splits)
next
  assume "exec J IO labels tokens m = Inr (res, m1)"
  then show "iteration J IO labels tokens m 9999
        = Inl (LimitError, m1\<lparr>abyss := push_result res (abyss m1), cursor := cursor m1 + 1\<rparr>, 10000)"
    by (simp add: iteration_def oplimit_def)
next
  assume "exec J IO labels tokens m = Inl (e, m1)"
  then show "iteration J IO labels tokens m 9999 = Inl (e, m1, 9999)"
    by (simp add: iteration_def)
next
  assume "cursor m < length tokens \<and> exec J IO labels tokens m = Inr (res, m1)"
  then show "main_loop J IO labels tokens m 9999
        = Inl (LimitError, m1\<lparr>abyss := push_result res (abyss m1), cursor := cursor m1 + 1\<rparr>, 10000)"
    by (subst main_loop.simps) (simp add: iteration_def oplimit_def)
next
  have "main_loop J IO ls (replicate oplimit 0) (m\<lparr>cursor := 0\<rparr>) 0
     = Inl (LimitError, m\<lparr>cursor := oplimit\<rparr>, oplimit)" for ls
    using nops_loop [of "m\<lparr>cursor := 0\<rparr>" 0 J IO ls] by (simp add: oplimit_def)
  with nops_labels [of 0 Map.empty]
  have "interpreter J IO (replicate oplimit 0) m = Inl (LimitError, m\<lparr>cursor := oplimit\<rparr>, oplimit)"
    by (simp add: interpreter_def)
  then show "interpreter J IO (replicate 10000 0) m
     = Inl (LimitError, m\<lparr>cursor := length (replicate 10000 (0::int))\<rparr>, 10000)"
    by (simp add: oplimit_def)
qed

text \<open>
  The program that pushes 7 returns 7 after one operation. The program of one no-op,
  entered with 9999 operations behind it, would stop after the no-op (the cursor stands
  at the end of the tokens) and fails with the limit error instead.
\<close>

theorem normal_return_stays_below_limit_witness:
  "interpreter plain_ops plain_io [5, 7] start
     = Inr (Prim (Num 7), \<lparr>cursor = 2, abyss = [], io = (), fresh = 0\<rparr>, 1) \<and>
   (1::nat) \<le> 9999 \<and>
   cursor start < length [0::int] \<and>
   exec plain_ops plain_io Map.empty [0] start = Inr (Null, start) \<and>
   main_loop plain_ops plain_io Map.empty [0] start 9999
     = Inl (LimitError, \<lparr>cursor = length [0::int], abyss = [], io = (), fresh = 0\<rparr>, 10000)"
proof -
  have r: "interpreter plain_ops plain_io [5, 7] start
     = Inr (Prim (Num 7), \<lparr>cursor = 2, abyss = [], io = (), fresh = 0\<rparr>, 1)"
    by (simp add: run_simps start_def)
  have x: "cursor start < length [0::int]"
    "exec plain_ops plain_io Map.empty [0] start = Inr (Null, start)"
    by (simp_all add: start_def exec_def opcodes OPCODES_get_def)
  note t = normal_return_stays_below_limit
    [of plain_ops plain_io "[5, 7]" start "Prim (Num 7)"
        "\<lparr>cursor = 2, abyss = [], io = (), fresh = 0\<rparr>" 1]
  note u = normal_return_stays_below_limit
    [of plain_ops plain_io "[0]" start _ _ _ Map.empty Null start,
     THEN conjunct2, THEN conjunct2, THEN conjunct2, THEN conjunct2, THEN conjunct2,
     THEN conjunct1]
  from u x have "main_loop plain_ops plain_io Map.empty [0] start 9999
     = Inl (LimitError, start\<lparr>abyss := push_result Null (abyss start), cursor := cursor start + 1\<rparr>, 10000)"
    by blast
  then have "main_loop plain_ops plain_io Map.empty [0] start 9999
     = Inl (LimitError, \<lparr>cursor = length [0::int], abyss = [], io = (), fresh = 0\<rparr>, 10000)"
    by (simp add: start_def)
  with t [THEN conjunct1] r x show ?thesis by simp
qed

section \<open>The abyss after a run\<close>

lemma program_push_invalid:
  "parser ''awa awa awawa awawa awa awa awa awa awa awa awawawa awawawa awa'' = Inr [5, 1, 22]"
  by code_simp

lemma program_empty:
  "parser ''awa'' = Inr []"
  by code_simp

text \<open>
  Claim C6, at a failing input. The program that pushes 1 and then meets the invalid
  opcode 22 fails, \<^verbatim>\<open>run\<close> returns 1, and the abyss of the instance still holds the
  bubble 1: the reset of the abyss is the last statement of \<^verbatim>\<open>interpreter\<close> and the
  \<^verbatim>\<open>catch\<close> of \<^verbatim>\<open>run\<close> does not repeat it. The empty program returns 0 on a new
  instance, and 1 on the instance the failed run left.
\<close>

theorem failed_run_keeps_abyss:
  "run J IO \<lparr>this_abyss = [], this_io = s, heap = r\<rparr>
     ''awa awa awawa awawa awa awa awa awa awa awa awawawa awawawa awa''
   = (Prim (Num 1),
      \<lparr>this_abyss = [Some (Bubble [Num 1])],
       this_io = io_report IO s (OpcodeError 22 InvalidOpcode), heap = r\<rparr>) \<and>
   run J IO \<lparr>this_abyss = [], this_io = s, heap = r\<rparr> ''awa''
   = (Prim (Num 0), \<lparr>this_abyss = [], this_io = io_reset IO s, heap = r\<rparr>) \<and>
   run J IO \<lparr>this_abyss = [Some (Bubble [Num 1])], this_io = s, heap = r\<rparr> ''awa''
   = (Prim (Num 1), \<lparr>this_abyss = [], this_io = io_reset IO s, heap = r\<rparr>)"
  by (simp add: program_push_invalid program_empty run_def run_simps)

text \<open>
  The part of the reset that holds: a run of the interpreter that returns a value
  leaves the abyss empty, and \<^verbatim>\<open>run\<close> hands the instance back with an empty abyss.
\<close>

theorem returned_run_clears_abyss:
  "(interpreter J IO tokens m = Inr (v, m', n) \<longrightarrow> abyss m' = []) \<and>
   (parser input = Inr tokens \<and>
    interpreter J IO tokens
      \<lparr>cursor = 0, abyss = this_abyss this, io = this_io this, fresh = heap this\<rparr>
      = Inr (v, m', n) \<longrightarrow>
    run J IO this input = (v, \<lparr>this_abyss = [], this_io = io_reset IO (io m'), heap = fresh m'\<rparr>))"
  by (auto simp: interpreter_def run_def split: sum.splits prod.splits if_splits option.splits)

theorem returned_run_clears_abyss_witness:
  "interpreter plain_ops plain_io [5, 7, 5, 8] start
     = Inr (Prim (Num 8), \<lparr>cursor = 4, abyss = [], io = (), fresh = 0\<rparr>, 2) \<and>
   abyss \<lparr>cursor = 4, abyss = [], io = (), fresh = 0\<rparr> = []"
proof -
  have r: "interpreter plain_ops plain_io [5, 7, 5, 8] start
     = Inr (Prim (Num 8), \<lparr>cursor = 4, abyss = [], io = (), fresh = 0\<rparr>, 2)"
    by (simp add: run_simps start_def)
  from returned_run_clears_abyss
    [of plain_ops plain_io "[5, 7, 5, 8]" start "Prim (Num 8)"
        "\<lparr>cursor = 4, abyss = [], io = (), fresh = 0\<rparr>" 2, THEN conjunct1] r
  show ?thesis by blast
qed

section \<open>Jumps\<close>

text \<open>
  Claim C7. When the token at the cursor is a jump, its parameter is there and is no
  registered label, the opcode throws nothing, leaves no result and moves the cursor
  onto the parameter only; the pass through the loop body then leaves the cursor on the
  token after the parameter, with the rest of the state as it was, and the loop goes on
  from there. The one error that can end the pass is the budget's: the limit error,
  when the jump was the 10000th operation.
\<close>

theorem jump_to_unregistered_label_falls_through:
  assumes "OPCODES_get (tokens ! cursor m) = JMP"
    and "token_at tokens (cursor m + 1) = Some l"
    and "labels l = None"
  shows "exec J IO labels tokens m = Inr (Null, m\<lparr>cursor := cursor m + 1\<rparr>) \<and>
     iteration J IO labels tokens m executed =
       (if executed + 1 \<ge> oplimit then Inl (LimitError, m\<lparr>cursor := cursor m + 2\<rparr>, executed + 1)
        else Inr (m\<lparr>cursor := cursor m + 2\<rparr>, executed + 1))"
  using assms by (simp add: exec_def opcodes with_param_def iteration_def)

theorem jump_to_unregistered_label_falls_through_witness:
  "OPCODES_get ([17, 7, 0] ! cursor start) = JMP \<and>
   token_at [17, 7, 0] (cursor start + 1) = Some 7 \<and>
   (Map.empty :: labels) 7 = None \<and>
   exec plain_ops plain_io Map.empty [17, 7, 0] start = Inr (Null, start\<lparr>cursor := 1\<rparr>) \<and>
   iteration plain_ops plain_io Map.empty [17, 7, 0] start 0 = Inr (start\<lparr>cursor := 2\<rparr>, 1)"
  using jump_to_unregistered_label_falls_through
    [of "[17, 7, 0]" start 7 Map.empty plain_ops plain_io 0]
  by (simp add: start_def OPCODES_get_def opcodes token_at_def oplimit_def)

text \<open>
  Claim C8. When the token at the cursor is one of the four conditional jumps, the
  opcode leaves no result and the abyss it ends with is the abyss it started with,
  whether it jumped, fell through or threw; so is the abyss after the whole pass through
  the loop body. With the parameter \<open>l\<close> there and the bubble \<open>b1\<close> on top of the bubble
  \<open>b2\<close>, the equality, less and greater jumps throw nothing and move the cursor only:
  to the target of \<open>l\<close> when \<open>l\<close> is registered and the comparator of the opcode holds
  of \<open>b1\<close> and \<open>b2\<close>, in this order, and onto the parameter otherwise. The zero jump does
  the same with the zero test of the top bubble alone.
\<close>

theorem conditional_jumps_keep_abyss:
  assumes "OPCODES_get (tokens ! cursor m) \<in> {EQL, LSS, GR8, EQZ}"
  shows "abyss (state_after (exec J IO labels tokens m)) = abyss m \<and>
     result_of (exec J IO labels tokens m) = Null \<and>
     abyss (state_after_iteration (iteration J IO labels tokens m executed)) = abyss m \<and>
     (\<forall>a b1 b2 l.
        OPCODES_get (tokens ! cursor m) \<noteq> EQZ \<and> abyss m = a @ [Some b2, Some b1] \<and>
        token_at tokens (cursor m + 1) = Some l \<longrightarrow>
        exec J IO labels tokens m =
          Inr (Null, m\<lparr>cursor :=
            (case labels l of
               None \<Rightarrow> cursor m + 1
             | Some target \<Rightarrow>
                 if (if OPCODES_get (tokens ! cursor m) = EQL then Comparator_equal b1 b2
                     else if OPCODES_get (tokens ! cursor m) = LSS then Comparator_less J b1 b2
                     else Comparator_greater J b1 b2)
                 then target else cursor m + 1)\<rparr>)) \<and>
     (\<forall>a b1 l.
        OPCODES_get (tokens ! cursor m) = EQZ \<and> abyss m = a @ [Some b1] \<and>
        token_at tokens (cursor m + 1) = Some l \<longrightarrow>
        exec J IO labels tokens m =
          Inr (Null, m\<lparr>cursor :=
            (case labels l of
               None \<Rightarrow> cursor m + 1
             | Some target \<Rightarrow> if Comparator_zero b1 then target else cursor m + 1)\<rparr>))"
proof -
  have j: "abyss (jump_if t labels l x) = abyss x" for t l and x :: "'a state"
    by (simp add: jump_if_def split: option.splits)
  have c2: "abyss (state_after (compare_top_two test labels tokens m)) = abyss m \<and>
     result_of (compare_top_two test labels tokens m) = Null" for test
    by (simp add: compare_top_two_def with_param_def j split: option.splits sum.splits)
  have e: "abyss (state_after (exec J IO labels tokens m)) = abyss m \<and>
     result_of (exec J IO labels tokens m) = Null"
  proof -
    from assms consider "OPCODES_get (tokens ! cursor m) = EQL"
      | "OPCODES_get (tokens ! cursor m) = LSS" | "OPCODES_get (tokens ! cursor m) = GR8"
      | "OPCODES_get (tokens ! cursor m) = EQZ"
      by auto
    then show ?thesis
    proof cases
      case 1
      then have "exec J IO labels tokens m = compare_top_two equal_entries labels tokens m"
        by (simp add: exec_def opcodes)
      with c2 show ?thesis by simp
    next
      case 2
      then have "exec J IO labels tokens m = compare_top_two (less_entries J) labels tokens m"
        by (simp add: exec_def opcodes)
      with c2 show ?thesis by simp
    next
      case 3
      then have "exec J IO labels tokens m = compare_top_two (greater_entries J) labels tokens m"
        by (simp add: exec_def opcodes)
      with c2 show ?thesis by simp
    next
      case 4
      then show ?thesis
        by (simp add: exec_def opcodes with_param_def Let_def j split: option.splits sum.splits)
    qed
  qed
  then have i: "abyss (state_after_iteration (iteration J IO labels tokens m executed)) = abyss m"
    by (cases "exec J IO labels tokens m") (auto simp: iteration_def Let_def)
  have lt: "less_entries J (Some b1) (Some b2) = Inr (Comparator_less J b1 b2)" for b1 b2
    by (simp add: less_entries_def Comparator_less_def)
  have gt: "greater_entries J (Some b1) (Some b2) = Inr (Comparator_greater J b1 b2)" for b1 b2
    by (simp add: greater_entries_def Comparator_greater_def)
  have two: "exec J IO labels tokens m =
          Inr (Null, m\<lparr>cursor :=
            (case labels l of
               None \<Rightarrow> cursor m + 1
             | Some target \<Rightarrow>
                 if (if OPCODES_get (tokens ! cursor m) = EQL then Comparator_equal b1 b2
                     else if OPCODES_get (tokens ! cursor m) = LSS then Comparator_less J b1 b2
                     else Comparator_greater J b1 b2)
                 then target else cursor m + 1)\<rparr>)"
    if "OPCODES_get (tokens ! cursor m) \<noteq> EQZ" "abyss m = a @ [Some b2, Some b1]"
      "token_at tokens (cursor m + 1) = Some l" for a b1 b2 l
    using assms that
    by (auto simp: exec_def opcodes with_param_def compare_top_two_def jump_if_def lt gt
        equal_entries_def nth_append split: option.splits)
  have one: "exec J IO labels tokens m =
          Inr (Null, m\<lparr>cursor :=
            (case labels l of
               None \<Rightarrow> cursor m + 1
             | Some target \<Rightarrow> if Comparator_zero b1 then target else cursor m + 1)\<rparr>)"
    if "OPCODES_get (tokens ! cursor m) = EQZ" "abyss m = a @ [Some b1]"
      "token_at tokens (cursor m + 1) = Some l" for a b1 l
    using that
    by (auto simp: exec_def opcodes with_param_def jump_if_def zero_entry_def
        split: option.splits)
  from e i two one show ?thesis by blast
qed

text \<open>
  The equality jump on two bubbles holding 1, to the registered label 3; and the less
  jump on a vector above an \<^verbatim>\<open>undefined\<close> entry, which falls through.
\<close>

theorem conditional_jumps_keep_abyss_witness:
  "OPCODES_get ([18, 3] ! 0) \<in> {EQL, LSS, GR8, EQZ} \<and>
   OPCODES_get ([18, 3] ! 0) \<noteq> EQZ \<and>
   token_at [18, 3] (0 + 1) = Some 3 \<and>
   exec plain_ops plain_io [3 \<mapsto> 5] [18, 3]
       \<lparr>cursor = 0, abyss = [Some (Bubble [Num 1]), Some (Bubble [Num 1])], io = (), fresh = 0\<rparr>
     = Inr (Null,
       \<lparr>cursor = 5, abyss = [Some (Bubble [Num 1]), Some (Bubble [Num 1])], io = (), fresh = 0\<rparr>) \<and>
   abyss (state_after_iteration (iteration plain_ops plain_io [3 \<mapsto> 5] [18, 3]
       \<lparr>cursor = 0, abyss = [Some (Bubble [Num 1]), Some (Bubble [Num 1])], io = (), fresh = 0\<rparr> 0))
     = [Some (Bubble [Num 1]), Some (Bubble [Num 1])] \<and>
   OPCODES_get ([19, 3] ! 0) \<in> {EQL, LSS, GR8, EQZ} \<and>
   exec plain_ops plain_io [3 \<mapsto> 5] [19, 3]
       \<lparr>cursor = 0, abyss = [None, Some (Bubble [Num 1, Num 2])], io = (), fresh = 0\<rparr>
     = Inr (Null,
       \<lparr>cursor = 1, abyss = [None, Some (Bubble [Num 1, Num 2])], io = (), fresh = 0\<rparr>)"
proof -
  let ?m = "\<lparr>cursor = 0, abyss = [Some (Bubble [Num 1]), Some (Bubble [Num 1])],
             io = (), fresh = 0\<rparr> :: unit state"
  let ?u = "\<lparr>cursor = 0, abyss = [None, Some (Bubble [Num 1, Num 2])],
             io = (), fresh = 0\<rparr> :: unit state"
  have h: "OPCODES_get ([18, 3] ! cursor ?m) \<in> {EQL, LSS, GR8, EQZ}"
    "OPCODES_get ([18, 3] ! cursor ?m) \<noteq> EQZ"
    "abyss ?m = [] @ [Some (Bubble [Num 1]), Some (Bubble [Num 1])]"
    "token_at [18, 3] (cursor ?m + 1) = Some 3"
    "OPCODES_get ([19, 3] ! cursor ?u) \<in> {EQL, LSS, GR8, EQZ}"
    by (simp_all add: OPCODES_get_def opcodes token_at_def)
  have e: "OPCODES_get ([18, 3] ! cursor ?m) = EQL"
    "Comparator_equal (Bubble [Num 1]) (Bubble [Num 1])"
    by (simp_all add: OPCODES_get_def opcodes Comparator_equal_def Bubble_isDouble_def)
  note t = conditional_jumps_keep_abyss [OF h(1), of plain_ops plain_io "[3 \<mapsto> 5]" 0]
  from t [THEN conjunct2, THEN conjunct2, THEN conjunct2, THEN conjunct1, rule_format,
      of "[]" "Bubble [Num 1]" "Bubble [Num 1]" 3]
  have "exec plain_ops plain_io [3 \<mapsto> 5] [18, 3] ?m =
      Inr (Null, ?m\<lparr>cursor := (case [3 \<mapsto> 5] 3 of None \<Rightarrow> cursor ?m + 1
        | Some target \<Rightarrow>
            if (if OPCODES_get ([18, 3] ! cursor ?m) = EQL
                then Comparator_equal (Bubble [Num 1]) (Bubble [Num 1])
                else if OPCODES_get ([18, 3] ! cursor ?m) = LSS
                then Comparator_less plain_ops (Bubble [Num 1]) (Bubble [Num 1])
                else Comparator_greater plain_ops (Bubble [Num 1]) (Bubble [Num 1]))
            then target else cursor ?m + 1)\<rparr>)"
    using h(2,3,4) by simp
  with e have x: "exec plain_ops plain_io [3 \<mapsto> 5] [18, 3] ?m = Inr (Null, ?m\<lparr>cursor := 5\<rparr>)"
    by simp
  from t [THEN conjunct2, THEN conjunct2, THEN conjunct1]
  have y: "abyss (state_after_iteration
      (iteration plain_ops plain_io [3 \<mapsto> 5] [18, 3] ?m 0)) = abyss ?m" .
  have z: "exec plain_ops plain_io [3 \<mapsto> 5] [19, 3] ?u = Inr (Null, ?u\<lparr>cursor := 1\<rparr>)"
    by (simp add: run_simps compare_top_two_def jump_if_def less_entries_def)
  from x y z h show ?thesis by simp
qed

end
